theory Spec2Isabelle
  imports Complex_Main
begin

section \<open>JavaScript values\<close>

text \<open>
  The handlers of \<^verbatim>\<open>studentController.js\<close> read the fields of a JSON request body and
  compare, coerce and store them. A JavaScript number is a finite value, \<^verbatim>\<open>NaN\<close> or one of
  the two infinities. Finite values are exact reals here: the rounding of IEEE doubles, the
  overflow of a huge literal to \<^verbatim>\<open>Infinity\<close> and the sign of zero are not modelled.
\<close>

datatype jsnum = Fin real | NaN | PInf | NInf

text \<open>
  The primitive values a JSON body can carry in a field, and \<^verbatim>\<open>undefined\<close> for a field that
  is absent. Arrays and nested objects are not modelled.
\<close>

datatype jsval = JUndefined | JNull | JBool bool | JNum jsnum | JStr string

text \<open>\<^verbatim>\<open>Number.isNaN\<close> and \<^verbatim>\<open>Number.isFinite\<close>.\<close>

fun isNaN :: "jsnum \<Rightarrow> bool" where
  "isNaN NaN = True"
| "isNaN _ = False"

fun isFinite :: "jsnum \<Rightarrow> bool" where
  "isFinite (Fin _) = True"
| "isFinite _ = False"

text \<open>The operators \<^verbatim>\<open>+\<close>, \<^verbatim>\<open>/\<close> and \<^verbatim>\<open>>\<close> on numbers.\<close>

fun num_add :: "jsnum \<Rightarrow> jsnum \<Rightarrow> jsnum" where
  "num_add (Fin a) (Fin b) = Fin (a + b)"
| "num_add NaN _ = NaN"
| "num_add _ NaN = NaN"
| "num_add PInf NInf = NaN"
| "num_add NInf PInf = NaN"
| "num_add PInf _ = PInf"
| "num_add NInf _ = NInf"
| "num_add _ PInf = PInf"
| "num_add _ NInf = NInf"

fun num_div :: "jsnum \<Rightarrow> jsnum \<Rightarrow> jsnum" where
  "num_div (Fin a) (Fin b) =
     (if b = 0 then (if a = 0 then NaN else if 0 < a then PInf else NInf) else Fin (a / b))"
| "num_div NaN _ = NaN"
| "num_div _ NaN = NaN"
| "num_div (Fin a) _ = Fin 0"
| "num_div PInf (Fin b) = (if b < 0 then NInf else PInf)"
| "num_div NInf (Fin b) = (if b < 0 then PInf else NInf)"
| "num_div _ _ = NaN"

fun num_gt :: "jsnum \<Rightarrow> jsnum \<Rightarrow> bool" where
  "num_gt (Fin a) (Fin b) = (b < a)"
| "num_gt NaN _ = False"
| "num_gt _ NaN = False"
| "num_gt PInf PInf = False"
| "num_gt PInf _ = True"
| "num_gt NInf _ = False"
| "num_gt _ NInf = True"
| "num_gt _ PInf = False"

text \<open>\<^verbatim>\<open>x >= 0\<close>: what it means for a number to be non-negative.\<close>

fun nonneg :: "jsnum \<Rightarrow> bool" where
  "nonneg (Fin a) = (0 \<le> a)"
| "nonneg PInf = True"
| "nonneg _ = False"

text \<open>\<^verbatim>\<open>Math.round\<close>: the nearest integer, a half rounding up.\<close>

fun math_round :: "jsnum \<Rightarrow> jsnum" where
  "math_round (Fin a) = Fin (of_int \<lfloor>a + 1 / 2\<rfloor>)"
| "math_round n = n"

text \<open>Truthiness, as \<^verbatim>\<open>!x\<close> and \<^verbatim>\<open>x || y\<close> test it.\<close>

fun truthy :: "jsval \<Rightarrow> bool" where
  "truthy JUndefined = False"
| "truthy JNull = False"
| "truthy (JBool b) = b"
| "truthy (JNum (Fin a)) = (a \<noteq> 0)"
| "truthy (JNum NaN) = False"
| "truthy (JNum _) = True"
| "truthy (JStr s) = (s \<noteq> [])"

subsection \<open>Conversion of a string to a number\<close>

text \<open>
  \<^verbatim>\<open>Number(s)\<close> on a string: white space is trimmed on both sides, the empty string is 0,
  and the rest must be a decimal literal with an optional sign (digits, an optional
  fraction, an optional exponent, or \<^verbatim>\<open>Infinity\<close>) or an unsigned hexadecimal, octal or
  binary literal; anything else is \<^verbatim>\<open>NaN\<close>. White space is the ASCII white space.
\<close>

definition is_space :: "char \<Rightarrow> bool" where
  "is_space c = (c \<in> set [CHR '' '', CHR 0x09, CHR 0x0A, CHR 0x0B, CHR 0x0C, CHR 0x0D])"

definition trim :: "string \<Rightarrow> string" where
  "trim s = rev (dropWhile is_space (rev (dropWhile is_space s)))"

definition digit_of :: "char \<Rightarrow> nat option" where
  "digit_of c =
     (let n = (of_char c :: nat) in
      if 48 \<le> n \<and> n \<le> 57 then Some (n - 48)
      else if 97 \<le> n \<and> n \<le> 102 then Some (n - 87)
      else if 65 \<le> n \<and> n \<le> 70 then Some (n - 55)
      else None)"

definition is_digit :: "nat \<Rightarrow> char \<Rightarrow> bool" where
  "is_digit base c = (case digit_of c of None \<Rightarrow> False | Some d \<Rightarrow> d < base)"

text \<open>The value of a string of digits in a base, most significant digit first.\<close>

definition digits_value :: "nat \<Rightarrow> string \<Rightarrow> nat" where
  "digits_value base s = foldl (\<lambda>acc c. acc * base + (case digit_of c of None \<Rightarrow> 0 | Some d \<Rightarrow> d)) 0 s"

definition parse_digits :: "nat \<Rightarrow> string \<Rightarrow> nat option" where
  "parse_digits base s =
     (if s \<noteq> [] \<and> list_all (is_digit base) s then Some (digits_value base s) else None)"

text \<open>The exponent part that may follow a decimal mantissa; the empty rest is exponent 0.\<close>

definition parse_exponent :: "string \<Rightarrow> int option" where
  "parse_exponent s =
     (case s of
        [] \<Rightarrow> Some 0
      | c # r \<Rightarrow>
          if c = CHR ''e'' \<or> c = CHR ''E'' then
            (case r of
               [] \<Rightarrow> None
             | d # r' \<Rightarrow>
                 if d = CHR ''+'' then map_option int (parse_digits 10 r')
                 else if d = CHR ''-'' then map_option (\<lambda>n. - int n) (parse_digits 10 r')
                 else map_option int (parse_digits 10 r))
          else None)"

definition scale10 :: "real \<Rightarrow> int \<Rightarrow> real" where
  "scale10 m e = (if 0 \<le> e then m * 10 ^ nat e else m / 10 ^ nat (- e))"

definition parse_unsigned_decimal :: "string \<Rightarrow> jsnum" where
  "parse_unsigned_decimal s =
     (if s = ''Infinity'' then PInf
      else
        let ip = takeWhile (is_digit 10) s; r1 = dropWhile (is_digit 10) s in
        (case r1 of
           c # r2 \<Rightarrow>
             if c = CHR ''.'' then
               (let fp = takeWhile (is_digit 10) r2; r3 = dropWhile (is_digit 10) r2 in
                if ip = [] \<and> fp = [] then NaN
                else
                  (case parse_exponent r3 of
                     None \<Rightarrow> NaN
                   | Some e \<Rightarrow>
                       Fin (scale10 (real (digits_value 10 ip)
                              + real (digits_value 10 fp) / 10 ^ length fp) e)))
             else if ip = [] then NaN
             else
               (case parse_exponent r1 of
                  None \<Rightarrow> NaN
                | Some e \<Rightarrow> Fin (scale10 (real (digits_value 10 ip)) e))
         | [] \<Rightarrow> if ip = [] then NaN else Fin (real (digits_value 10 ip))))"

fun num_neg :: "jsnum \<Rightarrow> jsnum" where
  "num_neg (Fin a) = Fin (- a)"
| "num_neg NaN = NaN"
| "num_neg PInf = NInf"
| "num_neg NInf = PInf"

definition parse_radix :: "nat \<Rightarrow> string \<Rightarrow> jsnum" where
  "parse_radix base s = (case parse_digits base s of None \<Rightarrow> NaN | Some n \<Rightarrow> Fin (real n))"

definition parse_numeric_literal :: "string \<Rightarrow> jsnum" where
  "parse_numeric_literal s =
     (case s of
        c # r \<Rightarrow>
          if c = CHR ''+'' then parse_unsigned_decimal r
          else if c = CHR ''-'' then num_neg (parse_unsigned_decimal r)
          else if c = CHR ''0'' \<and> r \<noteq> [] \<and> hd r \<in> set ''xX'' then parse_radix 16 (tl r)
          else if c = CHR ''0'' \<and> r \<noteq> [] \<and> hd r \<in> set ''oO'' then parse_radix 8 (tl r)
          else if c = CHR ''0'' \<and> r \<noteq> [] \<and> hd r \<in> set ''bB'' then parse_radix 2 (tl r)
          else parse_unsigned_decimal s
      | [] \<Rightarrow> NaN)"

definition Number :: "string \<Rightarrow> jsnum" where
  "Number s = (let t = trim s in if t = [] then Fin 0 else parse_numeric_literal t)"

text \<open>\<^verbatim>\<open>s.split(c)\<close> for a one-character separator: the pieces between the separators.\<close>

fun js_split :: "char \<Rightarrow> string \<Rightarrow> string list" where
  "js_split c [] = [[]]"
| "js_split c (x # xs) =
     (if x = c then [] # js_split c xs
      else (case js_split c xs of p # ps \<Rightarrow> (x # p) # ps | [] \<Rightarrow> [[x]]))"

text \<open>
  The conversion \<^verbatim>\<open>ToNumber\<close> that \<^verbatim>\<open>quizScore > 7\<close> applies to a value that is not a
  number already.
\<close>

fun to_number :: "jsval \<Rightarrow> jsnum" where
  "to_number JUndefined = NaN"
| "to_number JNull = Fin 0"
| "to_number (JBool b) = Fin (if b then 1 else 0)"
| "to_number (JNum n) = n"
| "to_number (JStr s) = Number s"

definition js_gt :: "jsval \<Rightarrow> jsnum \<Rightarrow> bool" where
  "js_gt v n = num_gt (to_number v) n"

section \<open>The signal normalizer\<close>

text \<open>The fields of a request body that the handlers read; an absent field is \<^verbatim>\<open>undefined\<close>.\<close>

record body =
  student_id :: jsval
  quiz_score :: jsval
  focus_minutes :: jsval
  focus_duration :: jsval
  reason :: jsval
  task_description :: jsval
  intervention_id :: jsval

definition empty_body :: body where
  "empty_body = \<lparr>student_id = JUndefined, quiz_score = JUndefined, focus_minutes = JUndefined,
     focus_duration = JUndefined, reason = JUndefined, task_description = JUndefined,
     intervention_id = JUndefined\<rparr>"

text \<open>
  \<^verbatim>\<open>typeof v === 'number'\<close>. The body is an object, so reading a field of it never raises.
\<close>

fun is_number :: "jsval \<Rightarrow> bool" where
  "is_number (JNum _) = True"
| "is_number _ = False"

text \<open>\<^verbatim>\<open>typeof v === 'number' && Number.isFinite(v)\<close>\<close>

definition is_finite_number :: "jsval \<Rightarrow> bool" where
  "is_finite_number v = (is_number v \<and> isFinite (to_number v))"

text \<open>
  \<^verbatim>\<open>parseFocusMinutes(body)\<close>: the finite numeric field, else the two-component string,
  else the string as a number, else 0.
\<close>

definition parseFocusMinutes :: "body \<Rightarrow> jsnum" where
  "parseFocusMinutes b =
     (if is_finite_number (focus_minutes b)
      then to_number (focus_minutes b)
      else
        (case focus_duration b of
           JStr s \<Rightarrow>
             (let parts = js_split CHR '':'' s in
              if length parts = 2 \<and> \<not> isNaN (Number (parts ! 0)) \<and> \<not> isNaN (Number (parts ! 1))
              then num_add (Number (parts ! 0)) (num_div (Number (parts ! 1)) (Fin 60))
              else if \<not> isNaN (Number s) then Number s
              else Fin 0)
         | _ \<Rightarrow> Fin 0))"

section \<open>The store and the notification transport\<close>

text \<open>
  Modelled from the spec: the relational store behind \<^verbatim>\<open>query\<close> (\<^verbatim>\<open>config/database\<close>) and
  its schema are not part of the sources. The tables are lists of rows with the columns the
  SQL statements of the controller name. A student has an identity, a state and a
  last-updated timestamp; a daily log is an appended record of student, quiz score, focus
  minutes and outcome tag; an intervention has an id, a student, a task description, a
  status \<^verbatim>\<open>pending\<close> or \<^verbatim>\<open>completed\<close>, an assignment time and an optional completion
  time. A statement parameter matches a column when the two values are equal. Intervention
  ids are issued by the store, counting up from 1.
\<close>

record student_row =
  st_id :: jsval
  st_status :: string
  st_updated_at :: nat

record log_row =
  lg_student_id :: jsval
  lg_quiz_score :: jsval
  lg_focus_minutes :: jsnum
  lg_status :: jsval

record intervention_row =
  iv_id :: jsval
  iv_student_id :: jsval
  iv_task_description :: jsval
  iv_status :: string
  iv_assigned_at :: nat
  iv_completed_at :: "nat option"

record db =
  students :: "student_row list"
  daily_logs :: "log_row list"
  interventions :: "intervention_row list"
  last_intervention_id :: nat

text \<open>\<^verbatim>\<open>SELECT * FROM students WHERE id = $1\<close>, first row or none (\<^verbatim>\<open>getQuery\<close>).\<close>

definition select_student :: "jsval \<Rightarrow> db \<Rightarrow> student_row option" where
  "select_student i d = find (\<lambda>r. st_id r = i) (students d)"

definition state_of :: "db \<Rightarrow> jsval \<Rightarrow> string option" where
  "state_of d i = map_option st_status (select_student i d)"

text \<open>\<^verbatim>\<open>INSERT INTO daily_logs (student_id, quiz_score, focus_minutes, status) VALUES ...\<close>\<close>

definition insert_daily_log :: "log_row \<Rightarrow> db \<Rightarrow> db" where
  "insert_daily_log row d = d\<lparr>daily_logs := daily_logs d @ [row]\<rparr>"

text \<open>\<^verbatim>\<open>UPDATE students SET status = $1, updated_at = NOW() WHERE id = $2\<close>\<close>

definition update_student_status :: "string \<Rightarrow> nat \<Rightarrow> jsval \<Rightarrow> db \<Rightarrow> db" where
  "update_student_status s now i d =
     d\<lparr>students :=
         map (\<lambda>r. if st_id r = i then r\<lparr>st_status := s, st_updated_at := now\<rparr> else r)
           (students d)\<rparr>"

text \<open>
  \<^verbatim>\<open>INSERT INTO interventions (student_id, task_description) VALUES ($1, $2) RETURNING ...\<close>:
  the new row is pending, with a fresh id, and is returned.
\<close>

definition new_intervention :: "nat \<Rightarrow> jsval \<Rightarrow> jsval \<Rightarrow> db \<Rightarrow> intervention_row" where
  "new_intervention now i task d =
     \<lparr>iv_id = JNum (Fin (real (Suc (last_intervention_id d)))), iv_student_id = i,
      iv_task_description = task, iv_status = ''pending'', iv_assigned_at = now,
      iv_completed_at = None\<rparr>"

definition insert_intervention :: "nat \<Rightarrow> jsval \<Rightarrow> jsval \<Rightarrow> db \<Rightarrow> db \<times> intervention_row" where
  "insert_intervention now i task d =
     (let row = new_intervention now i task d
      in (d\<lparr>interventions := interventions d @ [row],
            last_intervention_id := Suc (last_intervention_id d)\<rparr>, row))"

text \<open>
  \<^verbatim>\<open>UPDATE interventions SET status = $1, completed_at = NOW() WHERE id = $2 AND student_id = $3\<close>
  with the number of rows it changed (\<^verbatim>\<open>rowCount\<close>). The statement does not look at the
  status a row has.
\<close>

definition matches_intervention :: "jsval \<Rightarrow> jsval \<Rightarrow> intervention_row \<Rightarrow> bool" where
  "matches_intervention iid i r = (iv_id r = iid \<and> iv_student_id r = i)"

definition update_intervention_status :: "string \<Rightarrow> nat \<Rightarrow> jsval \<Rightarrow> jsval \<Rightarrow> db \<Rightarrow> db \<times> nat" where
  "update_intervention_status s now iid i d =
     (d\<lparr>interventions :=
         map (\<lambda>r. if matches_intervention iid i r
                  then r\<lparr>iv_status := s, iv_completed_at := Some now\<rparr> else r)
           (interventions d)\<rparr>,
      length (filter (matches_intervention iid i) (interventions d)))"

text \<open>
  What the environment decides for one request: whether its first and its second statement
  succeed (a failed statement raises and changes nothing), what the notification transport
  \<^verbatim>\<open>triggerMentorNotification\<close> (\<^verbatim>\<open>services/notificationService\<close>, not part of the sources)
  does, and the time \<^verbatim>\<open>NOW()\<close>. The transport raises, or returns nothing, or returns an
  object with the optional fields \<^verbatim>\<open>skipped\<close> and \<^verbatim>\<open>message\<close>.
\<close>

record notify_result =
  skipped :: bool
  message :: "string option"

datatype notify_outcome = NotifyRaised | NotifyReturned "notify_result option"

record env =
  q1_ok :: bool
  q2_ok :: bool
  notify_out :: notify_outcome
  clock :: nat

text \<open>The JSON of a response, and the response with its HTTP status.\<close>

datatype payload =
    ErrorBody string
  | StatusBody string "string option"
  | AssignedBody bool jsval
  | SuccessBody bool

datatype response = Response nat payload

text \<open>
  The calls a handler makes, in the order it makes them: a statement is recorded when it is
  issued, whether it then succeeds or raises.
\<close>

datatype event =
    InsertLog log_row
  | UpdateStudent jsval string
  | InsertIntervention jsval jsval
  | UpdateIntervention jsval jsval
  | Notify jsval jsval jsnum
  | Emit jsval string

record outcome =
  out_db :: db
  out_response :: response
  out_trace :: "event list"

fun is_Notify :: "event \<Rightarrow> bool" where
  "is_Notify (Notify _ _ _) = True"
| "is_Notify _ = False"

fun is_InsertLog :: "event \<Rightarrow> bool" where
  "is_InsertLog (InsertLog _) = True"
| "is_InsertLog _ = False"

fun is_UpdateStudent :: "event \<Rightarrow> bool" where
  "is_UpdateStudent (UpdateStudent _ _) = True"
| "is_UpdateStudent _ = False"

section \<open>The handlers\<close>

text \<open>\<^verbatim>\<open>dailyCheckin(req, res)\<close>\<close>

definition isSuccess :: "body \<Rightarrow> bool" where
  "isSuccess b = (js_gt (quiz_score b) (Fin 7) \<and> num_gt (parseFocusMinutes b) (Fin 60))"

definition responseStatus :: "body \<Rightarrow> string" where
  "responseStatus b = (if isSuccess b then ''On Track'' else ''Pending Mentor Review'')"

definition dbStatus :: "body \<Rightarrow> string" where
  "dbStatus b = (if isSuccess b then ''on_track'' else ''needs_intervention'')"

definition checkin_log_row :: "body \<Rightarrow> log_row" where
  "checkin_log_row b =
     \<lparr>lg_student_id = student_id b, lg_quiz_score = quiz_score b,
      lg_focus_minutes = math_round (parseFocusMinutes b), lg_status = JStr (dbStatus b)\<rparr>"

definition dailyCheckin :: "env \<Rightarrow> body \<Rightarrow> db \<Rightarrow> outcome" where
  "dailyCheckin e b d =
     (let studentId = student_id b; quizScore = quiz_score b;
          focusMinutes = parseFocusMinutes b;
          failed = Response 500 (ErrorBody ''Failed to process daily check-in'')
      in
      if \<not> truthy studentId \<or> quizScore = JUndefined
      then \<lparr>out_db = d, out_response = Response 400 (ErrorBody ''Missing required fields''),
            out_trace = []\<rparr>
      else if \<not> q1_ok e
      then \<lparr>out_db = d, out_response = failed, out_trace = [InsertLog (checkin_log_row b)]\<rparr>
      else
        let d1 = insert_daily_log (checkin_log_row b) d in
        if isSuccess b then
          (if \<not> q2_ok e
           then \<lparr>out_db = d1, out_response = failed,
                 out_trace = [InsertLog (checkin_log_row b), UpdateStudent studentId ''normal'']\<rparr>
           else \<lparr>out_db = update_student_status ''normal'' (clock e) studentId d1,
                 out_response = Response 200 (StatusBody (responseStatus b) None),
                 out_trace = [InsertLog (checkin_log_row b), UpdateStudent studentId ''normal'',
                              Emit studentId ''normal'']\<rparr>)
        else if \<not> q2_ok e
        then \<lparr>out_db = d1, out_response = failed,
              out_trace = [InsertLog (checkin_log_row b),
                           UpdateStudent studentId ''needs_intervention'']\<rparr>
        else
          let d2 = update_student_status ''needs_intervention'' (clock e) studentId d1;
              tr = [InsertLog (checkin_log_row b), UpdateStudent studentId ''needs_intervention'',
                    Notify studentId quizScore focusMinutes,
                    Emit studentId ''needs_intervention'']
          in
          (case notify_out e of
             NotifyRaised \<Rightarrow>
               \<lparr>out_db = d2,
                out_response = Response 200
                  (StatusBody (responseStatus b) (Some ''Notification may have failed'')),
                out_trace = tr\<rparr>
           | NotifyReturned None \<Rightarrow>
               \<lparr>out_db = d2, out_response = Response 200 (StatusBody (responseStatus b) None),
                out_trace = tr\<rparr>
           | NotifyReturned (Some r) \<Rightarrow>
               if skipped r
               then \<lparr>out_db = d2,
                     out_response = Response 200
                       (StatusBody (responseStatus b)
                          (Some (case message r of
                                   None \<Rightarrow> ''Notification skipped''
                                 | Some m \<Rightarrow> if m \<noteq> [] then m else ''Notification skipped''))),
                     out_trace = tr\<rparr>
               else \<lparr>out_db = d2, out_response = Response 200 (StatusBody (responseStatus b) None),
                     out_trace = tr\<rparr>))"

text \<open>\<^verbatim>\<open>assignIntervention(req, res)\<close>\<close>

definition assignIntervention :: "env \<Rightarrow> body \<Rightarrow> db \<Rightarrow> outcome" where
  "assignIntervention e b d =
     (let studentId = student_id b; taskDescription = task_description b;
          failed = Response 500 (ErrorBody ''Failed to assign intervention'')
      in
      if \<not> truthy studentId \<or> \<not> truthy taskDescription
      then \<lparr>out_db = d, out_response = Response 400 (ErrorBody ''Missing required fields''),
            out_trace = []\<rparr>
      else if \<not> q1_ok e
      then \<lparr>out_db = d, out_response = failed,
            out_trace = [InsertIntervention studentId taskDescription]\<rparr>
      else
        let (d1, intervention) = insert_intervention (clock e) studentId taskDescription d in
        if \<not> q2_ok e
        then \<lparr>out_db = d1, out_response = failed,
              out_trace = [InsertIntervention studentId taskDescription,
                           UpdateStudent studentId ''remedial'']\<rparr>
        else \<lparr>out_db = update_student_status ''remedial'' (clock e) studentId d1,
              out_response = Response 200 (AssignedBody True (iv_id intervention)),
              out_trace = [InsertIntervention studentId taskDescription,
                           UpdateStudent studentId ''remedial'', Emit studentId ''remedial'']\<rparr>)"

text \<open>\<^verbatim>\<open>completeIntervention(req, res)\<close>\<close>

definition completeIntervention :: "env \<Rightarrow> body \<Rightarrow> db \<Rightarrow> outcome" where
  "completeIntervention e b d =
     (let studentId = student_id b; interventionId = intervention_id b;
          failed = Response 500 (ErrorBody ''Failed to complete intervention'')
      in
      if \<not> truthy studentId \<or> \<not> truthy interventionId
      then \<lparr>out_db = d, out_response = Response 400 (ErrorBody ''Missing required fields''),
            out_trace = []\<rparr>
      else if \<not> q1_ok e
      then \<lparr>out_db = d, out_response = failed,
            out_trace = [UpdateIntervention interventionId studentId]\<rparr>
      else
        let (d1, rowCount) =
              update_intervention_status ''completed'' (clock e) interventionId studentId d in
        if rowCount = 0
        then \<lparr>out_db = d1, out_response = Response 404 (ErrorBody ''Intervention not found''),
              out_trace = [UpdateIntervention interventionId studentId]\<rparr>
        else if \<not> q2_ok e
        then \<lparr>out_db = d1, out_response = failed,
              out_trace = [UpdateIntervention interventionId studentId,
                           UpdateStudent studentId ''normal'']\<rparr>
        else \<lparr>out_db = update_student_status ''normal'' (clock e) studentId d1,
              out_response = Response 200 (SuccessBody True),
              out_trace = [UpdateIntervention interventionId studentId,
                           UpdateStudent studentId ''normal'', Emit studentId ''normal'']\<rparr>)"

text \<open>\<^verbatim>\<open>reportCheat(req, res)\<close>\<close>

definition statusReason :: "body \<Rightarrow> jsval" where
  "statusReason b = (if truthy (reason b) then reason b else JStr ''cheated'')"

definition cheat_log_row :: "body \<Rightarrow> log_row" where
  "cheat_log_row b =
     \<lparr>lg_student_id = student_id b, lg_quiz_score = JNum (Fin 0),
      lg_focus_minutes = math_round (parseFocusMinutes b), lg_status = statusReason b\<rparr>"

definition reportCheat :: "env \<Rightarrow> body \<Rightarrow> db \<Rightarrow> outcome" where
  "reportCheat e b d =
     (let studentId = student_id b; focusMinutes = parseFocusMinutes b;
          failed = Response 500 (ErrorBody ''Failed to log cheat'')
      in
      if \<not> truthy studentId
      then \<lparr>out_db = d, out_response = Response 400 (ErrorBody ''Missing required fields''),
            out_trace = []\<rparr>
      else if \<not> q1_ok e
      then \<lparr>out_db = d, out_response = failed, out_trace = [InsertLog (cheat_log_row b)]\<rparr>
      else
        let d1 = insert_daily_log (cheat_log_row b) d in
        if \<not> q2_ok e
        then \<lparr>out_db = d1, out_response = failed,
              out_trace = [InsertLog (cheat_log_row b),
                           UpdateStudent studentId ''needs_intervention'']\<rparr>
        else
          let d2 = update_student_status ''needs_intervention'' (clock e) studentId d1;
              tr = [InsertLog (cheat_log_row b), UpdateStudent studentId ''needs_intervention'',
                    Notify studentId (JNum (Fin 0)) focusMinutes,
                    Emit studentId ''needs_intervention'']
          in
          (case notify_out e of
             NotifyRaised \<Rightarrow>
               \<lparr>out_db = d2,
                out_response = Response 200
                  (StatusBody ''Logged cheat (notification may have failed)'' None),
                out_trace = tr\<rparr>
           | NotifyReturned None \<Rightarrow>
               \<lparr>out_db = d2,
                out_response = Response 200 (StatusBody ''Logged cheat and notified mentor'' None),
                out_trace = tr\<rparr>
           | NotifyReturned (Some r) \<Rightarrow>
               if skipped r
               then \<lparr>out_db = d2,
                     out_response = Response 200
                       (StatusBody ''Logged cheat (notification skipped)'' (message r)),
                     out_trace = tr\<rparr>
               else \<lparr>out_db = d2,
                     out_response = Response 200
                       (StatusBody ''Logged cheat and notified mentor'' None),
                     out_trace = tr\<rparr>))"

text \<open>
  A sequence of requests, each with what the environment decides for it, handled one after
  the other on the store.
\<close>

datatype request =
    DailyCheckin body
  | ReportCheat body
  | AssignIntervention body
  | CompleteIntervention body

fun handle :: "env \<Rightarrow> request \<Rightarrow> db \<Rightarrow> outcome" where
  "handle e (DailyCheckin b) d = dailyCheckin e b d"
| "handle e (ReportCheat b) d = reportCheat e b d"
| "handle e (AssignIntervention b) d = assignIntervention e b d"
| "handle e (CompleteIntervention b) d = completeIntervention e b d"

fun run :: "(env \<times> request) list \<Rightarrow> db \<Rightarrow> db" where
  "run [] d = d"
| "run ((e, r) # rs) d = run rs (out_db (handle e r d))"

text \<open>The three states, and the stores in which every student is in one of them.\<close>

definition valid_states :: "string list" where
  "valid_states = [''normal'', ''needs_intervention'', ''remedial'']"

definition state_ok :: "db \<Rightarrow> bool" where
  "state_ok d = list_all (\<lambda>r. st_status r \<in> set valid_states) (students d)"

section \<open>The client's focus session monitor\<close>

text \<open>
  The state of the \<^verbatim>\<open>App\<close> component that the timer and the focus-loss handler read and
  write: the React state variables, the two refs, and the requests posted to
  \<^verbatim>\<open>/report-cheat\<close> so far. A state setter takes effect at once here; the handlers decide on
  the refs, which JavaScript updates at once too. An entry of the activity log is its
  message (its id and its clock time are left out).
\<close>

record client =
  studentStatus :: string
  intervention :: "jsval option"
  isTimerRunning :: bool
  focusSeconds :: nat
  focusViolation :: bool
  isTimerRunningRef :: bool
  focusSecondsRef :: nat
  activityLog :: "string list"
  posted :: "body list"

definition STUDENT_ID :: string where
  "STUDENT_ID = ''student 123''"

text \<open>\<^verbatim>\<open>String(n)\<close> for a natural number, and \<^verbatim>\<open>s.padStart(n, c)\<close>.\<close>

definition digit_char :: "nat \<Rightarrow> char" where
  "digit_char d = ''0123456789'' ! d"

fun string_of_nat :: "nat \<Rightarrow> string" where
  "string_of_nat n =
     (if n < 10 then [digit_char n]
      else string_of_nat (n div 10) @ [digit_char (n mod 10)])"

definition padStart :: "nat \<Rightarrow> char \<Rightarrow> string \<Rightarrow> string" where
  "padStart n c s = replicate (n - length s) c @ s"

definition formatTime :: "nat \<Rightarrow> string" where
  "formatTime seconds =
     (let mins = seconds div 60; secs = seconds mod 60
      in padStart 2 CHR ''0'' (string_of_nat mins) @ '':'' @ padStart 2 CHR ''0'' (string_of_nat secs))"

definition addActivityLog :: "string \<Rightarrow> client \<Rightarrow> client" where
  "addActivityLog msg c = c\<lparr>activityLog := take 25 (msg # activityLog c)\<rparr>"

text \<open>
  The client's \<^verbatim>\<open>reportCheat(reason)\<close> up to its first \<^verbatim>\<open>await\<close>: the elapsed time is
  formatted and the request is posted. What follows the response runs later.
\<close>

definition client_reportCheat :: "string \<Rightarrow> client \<Rightarrow> client" where
  "client_reportCheat why c =
     (let focusDuration = formatTime (focusSecondsRef c)
      in c\<lparr>posted := posted c @
             [empty_body\<lparr>student_id := JStr STUDENT_ID, focus_duration := JStr focusDuration,
                         reason := JStr why\<rparr>]\<rparr>)"

definition handleFocusLoss :: "string \<Rightarrow> client \<Rightarrow> client" where
  "handleFocusLoss why c =
     (if \<not> isTimerRunningRef c then c
      else client_reportCheat why
             (addActivityLog ''Focus session interrupted''
                (c\<lparr>isTimerRunning := False, isTimerRunningRef := False, focusViolation := True,
                   studentStatus := ''needs_intervention'', intervention := None\<rparr>)))"

definition startTimer :: "client \<Rightarrow> client" where
  "startTimer c =
     addActivityLog ''Focus session started''
       (c\<lparr>focusViolation := False, isTimerRunning := True, isTimerRunningRef := True\<rparr>)"

definition stopTimer :: "client \<Rightarrow> client" where
  "stopTimer c =
     addActivityLog (''Focus session stopped at '' @ formatTime (focusSecondsRef c))
       (c\<lparr>isTimerRunning := False, isTimerRunningRef := False\<rparr>)"

definition resetTimer :: "client \<Rightarrow> client" where
  "resetTimer c =
     addActivityLog ''Timer reset''
       (c\<lparr>isTimerRunning := False, isTimerRunningRef := False, focusSeconds := 0,
          focusSecondsRef := 0, focusViolation := False\<rparr>)"

text \<open>The callback of the one-second interval, which exists only while the timer runs.\<close>

definition tick :: "client \<Rightarrow> client" where
  "tick c =
     (if isTimerRunning c
      then c\<lparr>focusSeconds := focusSeconds c + 1, focusSecondsRef := focusSecondsRef c + 1\<rparr>
      else c)"

text \<open>
  \<^verbatim>\<open>fetchStudentStatus\<close> on a response: the status of the student when the response has one,
  and the active intervention or none.
\<close>

definition statusFetched :: "string option \<Rightarrow> jsval option \<Rightarrow> client \<Rightarrow> client" where
  "statusFetched st iv c =
     addActivityLog ''Synced status with mentor loop''
       ((case st of
           Some s \<Rightarrow> if s \<noteq> [] then c\<lparr>studentStatus := s\<rparr> else c
         | None \<Rightarrow> c)\<lparr>intervention := iv\<rparr>)"

text \<open>What can happen to the monitor, and a sequence of such happenings.\<close>

datatype client_event =
    Start
  | Stop
  | Reset
  | Tick
  | FocusLoss string
  | StatusFetched "string option" "jsval option"

fun client_step :: "client_event \<Rightarrow> client \<Rightarrow> client" where
  "client_step Start c = startTimer c"
| "client_step Stop c = stopTimer c"
| "client_step Reset c = resetTimer c"
| "client_step Tick c = tick c"
| "client_step (FocusLoss why) c = handleFocusLoss why c"
| "client_step (StatusFetched st iv) c = statusFetched st iv c"

fun client_run :: "client_event list \<Rightarrow> client \<Rightarrow> client" where
  "client_run [] c = c"
| "client_run (ev # evs) c = client_run evs (client_step ev c)"

text \<open>The events other than a start of the timer.\<close>

fun is_Start :: "client_event \<Rightarrow> bool" where
  "is_Start Start = True"
| "is_Start _ = False"

section \<open>Example stores and requests\<close>

text \<open>Concrete inputs on which the handlers are evaluated below.\<close>

definition env_ok :: env where
  "env_ok = \<lparr>q1_ok = True, q2_ok = True, notify_out = NotifyReturned None, clock = 100\<rparr>"

definition env_notify_raised :: env where
  "env_notify_raised = env_ok\<lparr>notify_out := NotifyRaised\<rparr>"

definition db_one_student :: db where
  "db_one_student =
     \<lparr>students = [\<lparr>st_id = JStr ''s1'', st_status = ''normal'', st_updated_at = 0\<rparr>],
      daily_logs = [], interventions = [], last_intervention_id = 0\<rparr>"

definition checkin_body :: "real \<Rightarrow> real \<Rightarrow> body" where
  "checkin_body score minutes =
     empty_body\<lparr>student_id := JStr ''s1'', quiz_score := JNum (Fin score),
                focus_minutes := JNum (Fin minutes)\<rparr>"

definition example_ops :: "(env \<times> request) list" where
  "example_ops =
     [(env_ok, AssignIntervention (empty_body\<lparr>student_id := JStr ''s1'',
                                              task_description := JStr ''read chapter 1''\<rparr>)),
      (env_ok, CompleteIntervention (empty_body\<lparr>student_id := JStr ''s1'',
                                                intervention_id := JNum (Fin 1)\<rparr>)),
      (env_notify_raised, DailyCheckin (checkin_body 7 61)),
      (env_ok, ReportCheat (empty_body\<lparr>student_id := JStr ''s1'',
                                       focus_duration := JStr ''12:05''\<rparr>))]"

definition cheat_body :: body where
  "cheat_body = empty_body\<lparr>student_id := JStr ''s1'', focus_duration := JStr ''12:05''\<rparr>"

definition env_update_fails :: env where
  "env_update_fails = env_ok\<lparr>q2_ok := False\<rparr>"

definition body_sixty_and_a_half :: body where
  "body_sixty_and_a_half = checkin_body 7 60.5"

definition db_completed :: db where
  "db_completed =
     \<lparr>students = [\<lparr>st_id = JStr ''s1'', st_status = ''needs_intervention'', st_updated_at = 3\<rparr>],
      daily_logs = [],
      interventions =
        [\<lparr>iv_id = JNum (Fin 1), iv_student_id = JStr ''s1'',
          iv_task_description = JStr ''read chapter 1'', iv_status = ''completed'',
          iv_assigned_at = 1, iv_completed_at = Some 2\<rparr>],
      last_intervention_id = 1\<rparr>"

definition complete_body :: "real \<Rightarrow> body" where
  "complete_body n = empty_body\<lparr>student_id := JStr ''s1'', intervention_id := JNum (Fin n)\<rparr>"

definition assign_body :: body where
  "assign_body =
     empty_body\<lparr>student_id := JStr ''s1'', task_description := JStr ''read chapter 1''\<rparr>"

definition client_idle :: client where
  "client_idle =
     \<lparr>studentStatus = ''normal'', intervention = None, isTimerRunning = False, focusSeconds = 0,
      focusViolation = False, isTimerRunningRef = False, focusSecondsRef = 0, activityLog = [],
      posted = []\<rparr>"

section \<open>Properties of the signal normalizer\<close>

lemmas number_eval = Number_def trim_def is_space_def parse_numeric_literal_def
  parse_unsigned_decimal_def parse_exponent_def parse_digits_def digits_value_def
  is_digit_def digit_of_def scale10_def parse_radix_def

lemma is_number_finite: "is_finite_number v = (\<exists>r. v = JNum (Fin r))"
  unfolding is_finite_number_def by (cases v rule: to_number.cases) (auto elim: isFinite.elims)

text \<open>
  Claim C5. The normalizer returns a finite numeric \<^verbatim>\<open>focus_minutes\<close> field as it is;
  else, for a string of two components that both convert to a number, minutes plus
  seconds over 60; else the string converted as a whole, when that is a number; else 0.
  The function is total: on a body it always returns a number. \<^verbatim>\<open>"5:30"\<close> gives 5.5 and
  \<^verbatim>\<open>"bad"\<close> gives 0.
\<close>

theorem parseFocusMinutes_branches:
  "(focus_minutes b = JNum (Fin r) \<longrightarrow> parseFocusMinutes b = Fin r)
   \<and> ((\<forall>x. focus_minutes b \<noteq> JNum (Fin x)) \<and> focus_duration b = JStr s
        \<and> js_split CHR '':'' s = [m, sec] \<and> \<not> isNaN (Number m) \<and> \<not> isNaN (Number sec)
      \<longrightarrow> parseFocusMinutes b = num_add (Number m) (num_div (Number sec) (Fin 60)))
   \<and> ((\<forall>x. focus_minutes b \<noteq> JNum (Fin x)) \<and> focus_duration b = JStr s
        \<and> \<not> (\<exists>m sec. js_split CHR '':'' s = [m, sec] \<and> \<not> isNaN (Number m) \<and> \<not> isNaN (Number sec))
        \<and> \<not> isNaN (Number s)
      \<longrightarrow> parseFocusMinutes b = Number s)
   \<and> ((\<forall>x. focus_minutes b \<noteq> JNum (Fin x))
        \<and> (\<forall>s. focus_duration b = JStr s \<longrightarrow>
              \<not> (\<exists>m sec. js_split CHR '':'' s = [m, sec] \<and> \<not> isNaN (Number m) \<and> \<not> isNaN (Number sec))
              \<and> isNaN (Number s))
      \<longrightarrow> parseFocusMinutes b = Fin 0)
   \<and> parseFocusMinutes (empty_body\<lparr>focus_duration := JStr ''5:30''\<rparr>) = Fin 5.5
   \<and> parseFocusMinutes (empty_body\<lparr>focus_duration := JStr ''bad''\<rparr>) = Fin 0"
proof (intro conjI impI)
  assume "focus_minutes b = JNum (Fin r)"
  then show "parseFocusMinutes b = Fin r" by (simp add: parseFocusMinutes_def is_finite_number_def)
next
  assume a: "(\<forall>x. focus_minutes b \<noteq> JNum (Fin x)) \<and> focus_duration b = JStr s
        \<and> js_split CHR '':'' s = [m, sec] \<and> \<not> isNaN (Number m) \<and> \<not> isNaN (Number sec)"
  then have "\<not> is_finite_number (focus_minutes b)"
    by (simp only: is_number_finite) blast
  with a show "parseFocusMinutes b = num_add (Number m) (num_div (Number sec) (Fin 60))"
    by (auto simp add: parseFocusMinutes_def)
next
  assume a: "(\<forall>x. focus_minutes b \<noteq> JNum (Fin x)) \<and> focus_duration b = JStr s
        \<and> \<not> (\<exists>m sec. js_split CHR '':'' s = [m, sec] \<and> \<not> isNaN (Number m) \<and> \<not> isNaN (Number sec))
        \<and> \<not> isNaN (Number s)"
  then have n: "\<not> is_finite_number (focus_minutes b)"
    by (simp only: is_number_finite) blast
  have two: "length xs = 2 \<Longrightarrow> xs = [xs ! 0, xs ! 1]" for xs :: "string list"
    by (cases xs; cases "tl xs") auto
  from a have "\<not> (length (js_split CHR '':'' s) = 2 \<and> \<not> isNaN (Number (js_split CHR '':'' s ! 0))
       \<and> \<not> isNaN (Number (js_split CHR '':'' s ! 1)))"
    using two by blast
  with a n show "parseFocusMinutes b = Number s"
    by (auto simp add: parseFocusMinutes_def Let_def)
next
  assume a: "(\<forall>x. focus_minutes b \<noteq> JNum (Fin x))
        \<and> (\<forall>s. focus_duration b = JStr s \<longrightarrow>
              \<not> (\<exists>m sec. js_split CHR '':'' s = [m, sec] \<and> \<not> isNaN (Number m) \<and> \<not> isNaN (Number sec))
              \<and> isNaN (Number s))"
  then have n: "\<not> is_finite_number (focus_minutes b)"
    by (simp only: is_number_finite) blast
  have two: "length xs = 2 \<Longrightarrow> xs = [xs ! 0, xs ! 1]" for xs :: "string list"
    by (cases xs; cases "tl xs") auto
  show "parseFocusMinutes b = Fin 0"
  proof (cases "focus_duration b")
    case (JStr s)
    with a have "\<not> (length (js_split CHR '':'' s) = 2 \<and> \<not> isNaN (Number (js_split CHR '':'' s ! 0))
       \<and> \<not> isNaN (Number (js_split CHR '':'' s ! 1)))" and "isNaN (Number s)"
      using two by blast+
    with n JStr show ?thesis by (auto simp add: parseFocusMinutes_def Let_def)
  qed (use n in \<open>simp_all add: parseFocusMinutes_def\<close>)
next
  show "parseFocusMinutes (empty_body\<lparr>focus_duration := JStr ''5:30''\<rparr>) = Fin 5.5"
    by (simp add: parseFocusMinutes_def is_finite_number_def empty_body_def number_eval)
next
  show "parseFocusMinutes (empty_body\<lparr>focus_duration := JStr ''bad''\<rparr>) = Fin 0"
    by (simp add: parseFocusMinutes_def is_finite_number_def empty_body_def number_eval)
qed

text \<open>One body for each of the four branches.\<close>

theorem parseFocusMinutes_branches_witness:
  "parseFocusMinutes (empty_body\<lparr>focus_minutes := JNum (Fin 42)\<rparr>) = Fin 42
   \<and> parseFocusMinutes (empty_body\<lparr>focus_duration := JStr ''61:15''\<rparr>) = Fin 61.25
   \<and> parseFocusMinutes (empty_body\<lparr>focus_minutes := JNum NaN, focus_duration := JStr '' 90 ''\<rparr>) = Fin 90
   \<and> parseFocusMinutes (empty_body\<lparr>focus_minutes := JStr ''12'', focus_duration := JStr ''1:2:3''\<rparr>) = Fin 0"
proof (intro conjI)
  show "parseFocusMinutes (empty_body\<lparr>focus_minutes := JNum (Fin 42)\<rparr>) = Fin 42"
    using parseFocusMinutes_branches [of "empty_body\<lparr>focus_minutes := JNum (Fin 42)\<rparr>" 42]
    by (simp add: empty_body_def)
  show "parseFocusMinutes (empty_body\<lparr>focus_duration := JStr ''61:15''\<rparr>) = Fin 61.25"
    using parseFocusMinutes_branches [of "empty_body\<lparr>focus_duration := JStr ''61:15''\<rparr>" _ "''61:15''" "''61''" "''15''"]
    by (simp add: empty_body_def number_eval)
  show "parseFocusMinutes (empty_body\<lparr>focus_minutes := JNum NaN, focus_duration := JStr '' 90 ''\<rparr>) = Fin 90"
    using parseFocusMinutes_branches [of "empty_body\<lparr>focus_minutes := JNum NaN, focus_duration := JStr '' 90 ''\<rparr>" _ "'' 90 ''"]
    by (simp add: empty_body_def number_eval)
  show "parseFocusMinutes (empty_body\<lparr>focus_minutes := JStr ''12'', focus_duration := JStr ''1:2:3''\<rparr>) = Fin 0"
    using parseFocusMinutes_branches [of "empty_body\<lparr>focus_minutes := JStr ''12'', focus_duration := JStr ''1:2:3''\<rparr>"]
    by (simp add: empty_body_def number_eval)
qed

text \<open>
  Claim C6 says that the normalizer's result is never negative. A negative finite
  \<^verbatim>\<open>focus_minutes\<close> is returned as it is.
\<close>

theorem parseFocusMinutes_negative_counterexample:
  "\<not> nonneg (parseFocusMinutes (empty_body\<lparr>focus_minutes := JNum (Fin (- 5))\<rparr>))"
  by (simp add: parseFocusMinutes_def is_finite_number_def empty_body_def)

lemma nonneg_minutes_seconds:
  "nonneg a \<Longrightarrow> nonneg c \<Longrightarrow> nonneg (num_add a (num_div c (Fin 60)))"
  by (cases a; cases c) simp_all

text \<open>
  Claim C6, amended. When the finite numeric \<^verbatim>\<open>focus_minutes\<close> field, if there is one, is
  not negative, and every number that the \<^verbatim>\<open>focus_duration\<close> string or one of its
  components converts to is not negative, the normalizer's result is not negative.
\<close>

theorem parseFocusMinutes_nonneg:
  assumes num: "\<And>r. focus_minutes b = JNum (Fin r) \<Longrightarrow> 0 \<le> r"
    and str: "\<And>s p. focus_duration b = JStr s \<Longrightarrow> p \<in> set (s # js_split CHR '':'' s) \<Longrightarrow>
                isNaN (Number p) \<or> nonneg (Number p)"
  shows "nonneg (parseFocusMinutes b)"
proof (cases "is_finite_number (focus_minutes b)")
  case True
  then obtain r where "focus_minutes b = JNum (Fin r)" by (auto simp: is_number_finite)
  with num [of r] show ?thesis by (simp add: parseFocusMinutes_def is_finite_number_def)
next
  case False
  show ?thesis
  proof (cases "focus_duration b")
    case (JStr s)
    let ?ps = "js_split CHR '':'' s"
    show ?thesis
    proof (cases "length ?ps = 2 \<and> \<not> isNaN (Number (?ps ! 0)) \<and> \<not> isNaN (Number (?ps ! 1))")
      case True
      then have m0: "?ps ! 0 \<in> set (s # ?ps)" and m1: "?ps ! 1 \<in> set (s # ?ps)"
        by simp_all
      from str [OF JStr m0] str [OF JStr m1] True have "nonneg (Number (?ps ! 0))" "nonneg (Number (?ps ! 1))"
        by blast+
      then have "nonneg (num_add (Number (?ps ! 0)) (num_div (Number (?ps ! 1)) (Fin 60)))"
        by (rule nonneg_minutes_seconds)
      with False JStr True show ?thesis by (simp add: parseFocusMinutes_def Let_def)
    next
      case nt: False
      from str [OF JStr, of s] have "isNaN (Number s) \<or> nonneg (Number s)" by simp
      with False JStr nt show ?thesis by (auto simp add: parseFocusMinutes_def Let_def)
    qed
  qed (use False in \<open>simp_all add: parseFocusMinutes_def\<close>)
qed

theorem parseFocusMinutes_nonneg_witness:
  "nonneg (parseFocusMinutes (empty_body\<lparr>focus_duration := JStr ''5:30''\<rparr>))"
  by (rule parseFocusMinutes_nonneg) (auto simp add: empty_body_def number_eval)

section \<open>Properties of the store and of the handlers\<close>

lemma students_insert_daily_log [simp]: "students (insert_daily_log row d) = students d"
  by (simp add: insert_daily_log_def)

lemma daily_logs_insert_daily_log [simp]:
  "daily_logs (insert_daily_log row d) = daily_logs d @ [row]"
  by (simp add: insert_daily_log_def)

lemma daily_logs_update_student_status [simp]:
  "daily_logs (update_student_status s t i d) = daily_logs d"
  by (simp add: update_student_status_def)

lemma interventions_update_student_status [simp]:
  "interventions (update_student_status s t i d) = interventions d"
  by (simp add: update_student_status_def)

lemma students_insert_intervention [simp]:
  "students (fst (insert_intervention t i task d)) = students d"
  by (simp add: insert_intervention_def Let_def)

lemma students_update_intervention_status [simp]:
  "students (fst (update_intervention_status s t iid i d)) = students d"
  by (simp add: update_intervention_status_def)

lemma find_status_update:
  "map_option st_status
     (find (\<lambda>r. st_id r = j)
        (map (\<lambda>r. if st_id r = i then r\<lparr>st_status := s, st_updated_at := t\<rparr> else r) rs)) =
   (if j = i then map_option (\<lambda>_. s) (find (\<lambda>r. st_id r = i) rs)
    else map_option st_status (find (\<lambda>r. st_id r = j) rs))"
  by (induction rs) auto

lemma state_of_update_student_status:
  "state_of (update_student_status s t i d) j =
   (if j = i then map_option (\<lambda>_. s) (state_of d i) else state_of d j)"
  by (simp add: state_of_def select_student_def update_student_status_def find_status_update
      option.map_comp comp_def)

lemma state_ok_update_student_status:
  "s \<in> set valid_states \<Longrightarrow> state_ok d \<Longrightarrow> state_ok (update_student_status s t i d)"
  by (auto simp add: state_ok_def update_student_status_def list_all_iff)

lemma ids_update_student_status [simp]:
  "map st_id (students (update_student_status s t i d)) = map st_id (students d)"
  by (simp add: update_student_status_def comp_def)


lemma out_db_dailyCheckin:
  "out_db (dailyCheckin e b d) =
     (if \<not> truthy (student_id b) \<or> quiz_score b = JUndefined \<or> \<not> q1_ok e then d
      else if \<not> q2_ok e then insert_daily_log (checkin_log_row b) d
      else update_student_status (if isSuccess b then ''normal'' else ''needs_intervention'')
             (clock e) (student_id b) (insert_daily_log (checkin_log_row b) d))"
  by (simp add: dailyCheckin_def Let_def split: notify_outcome.split option.split)

lemma out_db_reportCheat:
  "out_db (reportCheat e b d) =
     (if \<not> truthy (student_id b) \<or> \<not> q1_ok e then d
      else if \<not> q2_ok e then insert_daily_log (cheat_log_row b) d
      else update_student_status ''needs_intervention'' (clock e) (student_id b)
             (insert_daily_log (cheat_log_row b) d))"
  by (simp add: reportCheat_def Let_def split: notify_outcome.split option.split)

lemma out_db_assignIntervention:
  "out_db (assignIntervention e b d) =
     (if \<not> truthy (student_id b) \<or> \<not> truthy (task_description b) \<or> \<not> q1_ok e then d
      else if \<not> q2_ok e
      then fst (insert_intervention (clock e) (student_id b) (task_description b) d)
      else update_student_status ''remedial'' (clock e) (student_id b)
             (fst (insert_intervention (clock e) (student_id b) (task_description b) d)))"
  by (simp add: assignIntervention_def Let_def split_beta)

lemma out_db_completeIntervention:
  "out_db (completeIntervention e b d) =
     (if \<not> truthy (student_id b) \<or> \<not> truthy (intervention_id b) \<or> \<not> q1_ok e then d
      else if snd (update_intervention_status ''completed'' (clock e) (intervention_id b)
                     (student_id b) d) = 0 \<or> \<not> q2_ok e
      then fst (update_intervention_status ''completed'' (clock e) (intervention_id b)
                  (student_id b) d)
      else update_student_status ''normal'' (clock e) (student_id b)
             (fst (update_intervention_status ''completed'' (clock e) (intervention_id b)
                     (student_id b) d)))"
  by (simp add: completeIntervention_def Let_def split_beta)


lemma state_ok_insert_daily_log [simp]: "state_ok (insert_daily_log row d) = state_ok d"
  by (simp add: state_ok_def)

lemma state_ok_insert_intervention [simp]:
  "state_ok (fst (insert_intervention t i task d)) = state_ok d"
  by (simp add: state_ok_def)

lemma state_ok_update_intervention_status [simp]:
  "state_ok (fst (update_intervention_status s t iid i d)) = state_ok d"
  by (simp add: state_ok_def)

lemma valid_states_mem [simp]:
  "''normal'' \<in> set valid_states" "''needs_intervention'' \<in> set valid_states"
  "''remedial'' \<in> set valid_states"
  by (simp_all add: valid_states_def)

lemma preserved_dailyCheckin:
  "state_ok d \<Longrightarrow> state_ok (out_db (dailyCheckin e b d))
     \<and> map st_id (students (out_db (dailyCheckin e b d))) = map st_id (students d)"
  by (simp add: out_db_dailyCheckin state_ok_update_student_status)

lemma preserved_reportCheat:
  "state_ok d \<Longrightarrow> state_ok (out_db (reportCheat e b d))
     \<and> map st_id (students (out_db (reportCheat e b d))) = map st_id (students d)"
  by (simp add: out_db_reportCheat state_ok_update_student_status)

lemma preserved_assignIntervention:
  "state_ok d \<Longrightarrow> state_ok (out_db (assignIntervention e b d))
     \<and> map st_id (students (out_db (assignIntervention e b d))) = map st_id (students d)"
  by (simp add: out_db_assignIntervention state_ok_update_student_status)

lemma preserved_completeIntervention:
  "state_ok d \<Longrightarrow> state_ok (out_db (completeIntervention e b d))
     \<and> map st_id (students (out_db (completeIntervention e b d))) = map st_id (students d)"
  by (simp add: out_db_completeIntervention state_ok_update_student_status)

lemma preserved_handle:
  "state_ok d \<Longrightarrow> state_ok (out_db (handle e r d))
     \<and> map st_id (students (out_db (handle e r d))) = map st_id (students d)"
  by (cases r)
    (simp_all only: handle.simps preserved_dailyCheckin preserved_reportCheat
      preserved_assignIntervention preserved_completeIntervention simp_thms)

text \<open>
  Claim C1. From a store in which every student is in one of the three states, any sequence
  of check-ins, violation reports, assignments and completions, whatever the environment
  decides for each, leads to a store with the same students, each of them in the state
  \<^verbatim>\<open>normal\<close>, \<^verbatim>\<open>needs_intervention\<close> or \<^verbatim>\<open>remedial\<close>.
\<close>

theorem run_state_ok:
  assumes "state_ok d"
  shows "(\<forall>r \<in> set (students (run ops d)).
            st_status r = ''normal'' \<or> st_status r = ''needs_intervention''
            \<or> st_status r = ''remedial'')
         \<and> map st_id (students (run ops d)) = map st_id (students d)"
proof -
  have "state_ok (run ops d) \<and> map st_id (students (run ops d)) = map st_id (students d)"
    using assms
  proof (induction ops arbitrary: d)
    case Nil
    then show ?case by simp
  next
    case (Cons x ops)
    obtain e r where x: "x = (e, r)" by (cases x)
    from preserved_handle [OF Cons.prems, of e r] Cons.IH [of "out_db (handle e r d)"] x
    show ?case by simp
  qed
  then show ?thesis
    by (auto simp add: state_ok_def valid_states_def list_all_iff)
qed


lemmas example_defs = env_ok_def env_notify_raised_def db_one_student_def checkin_body_def
  empty_body_def

lemmas store_defs = insert_daily_log_def update_student_status_def
  insert_intervention_def new_intervention_def update_intervention_status_def matches_intervention_def
  state_of_def select_student_def

lemmas checkin_defs = isSuccess_def responseStatus_def dbStatus_def checkin_log_row_def
  cheat_log_row_def statusReason_def js_gt_def parseFocusMinutes_def is_finite_number_def

text \<open>An assignment, its completion, a failing check-in and a violation report in a row.\<close>

theorem run_state_ok_witness:
  "state_ok db_one_student
   \<and> map st_status (students (run example_ops db_one_student)) = [''needs_intervention'']
   \<and> map st_id (students (run example_ops db_one_student)) = [JStr ''s1'']"
proof -
  have ok: "state_ok db_one_student"
    by (simp add: state_ok_def valid_states_def db_one_student_def)
  have "map st_status (students (run example_ops db_one_student)) = [''needs_intervention'']"
    by (simp add: example_ops_def example_defs out_db_dailyCheckin out_db_reportCheat
        out_db_assignIntervention out_db_completeIntervention store_defs checkin_defs Let_def)
  moreover have "map st_id (students db_one_student) = [JStr ''s1'']"
    by (simp add: db_one_student_def)
  ultimately show ?thesis using ok run_state_ok [OF ok, of example_ops] by simp
qed

lemma out_trace_dailyCheckin:
  "out_trace (dailyCheckin e b d) =
     (if \<not> truthy (student_id b) \<or> quiz_score b = JUndefined then []
      else InsertLog (checkin_log_row b) #
        (if \<not> q1_ok e then []
         else if isSuccess b
         then UpdateStudent (student_id b) ''normal'' #
                (if \<not> q2_ok e then [] else [Emit (student_id b) ''normal''])
         else UpdateStudent (student_id b) ''needs_intervention'' #
                (if \<not> q2_ok e then []
                 else [Notify (student_id b) (quiz_score b) (parseFocusMinutes b),
                       Emit (student_id b) ''needs_intervention''])))"
  by (simp add: dailyCheckin_def Let_def split: notify_outcome.split option.split)

lemma out_trace_reportCheat:
  "out_trace (reportCheat e b d) =
     (if \<not> truthy (student_id b) then []
      else InsertLog (cheat_log_row b) #
        (if \<not> q1_ok e then []
         else UpdateStudent (student_id b) ''needs_intervention'' #
                (if \<not> q2_ok e then []
                 else [Notify (student_id b) (JNum (Fin 0)) (parseFocusMinutes b),
                       Emit (student_id b) ''needs_intervention''])))"
  by (simp add: reportCheat_def Let_def split: notify_outcome.split option.split)

lemma state_of_insert_daily_log [simp]: "state_of (insert_daily_log row d) i = state_of d i"
  by (simp add: state_of_def select_student_def)

text \<open>
  Claim C2. For a check-in that carries its required fields, on a known student and with
  both statements succeeding: when \<^verbatim>\<open>quiz_score > 7\<close> and \<^verbatim>\<open>focusMinutes > 60\<close> the student's
  state becomes \<^verbatim>\<open>normal\<close> and the mentor is not notified; otherwise, and so at a quiz
  score of exactly 7 or at exactly 60 focus minutes, the state becomes
  \<^verbatim>\<open>needs_intervention\<close> and the mentor is notified once.
\<close>

theorem dailyCheckin_guard:
  assumes valid: "truthy (student_id b)" "quiz_score b \<noteq> JUndefined"
    and ok: "q1_ok e" "q2_ok e"
    and known: "state_of d (student_id b) \<noteq> None"
  shows "(js_gt (quiz_score b) (Fin 7) \<and> num_gt (parseFocusMinutes b) (Fin 60) \<longrightarrow>
            state_of (out_db (dailyCheckin e b d)) (student_id b) = Some ''normal''
            \<and> filter is_Notify (out_trace (dailyCheckin e b d)) = [])
         \<and> (\<not> (js_gt (quiz_score b) (Fin 7) \<and> num_gt (parseFocusMinutes b) (Fin 60)) \<longrightarrow>
            state_of (out_db (dailyCheckin e b d)) (student_id b) = Some ''needs_intervention''
            \<and> filter is_Notify (out_trace (dailyCheckin e b d)) =
                [Notify (student_id b) (quiz_score b) (parseFocusMinutes b)])
         \<and> (quiz_score b = JNum (Fin 7) \<or> parseFocusMinutes b = Fin 60 \<longrightarrow>
            state_of (out_db (dailyCheckin e b d)) (student_id b) = Some ''needs_intervention''
            \<and> filter is_Notify (out_trace (dailyCheckin e b d)) =
                [Notify (student_id b) (quiz_score b) (parseFocusMinutes b)])"
proof -
  from known obtain s where s: "state_of d (student_id b) = Some s" by auto
  have pass: "isSuccess b \<Longrightarrow>
      state_of (out_db (dailyCheckin e b d)) (student_id b) = Some ''normal''
      \<and> filter is_Notify (out_trace (dailyCheckin e b d)) = []"
    using valid ok s
    by (simp add: out_db_dailyCheckin out_trace_dailyCheckin state_of_update_student_status)
  have fail: "\<not> isSuccess b \<Longrightarrow>
      state_of (out_db (dailyCheckin e b d)) (student_id b) = Some ''needs_intervention''
      \<and> filter is_Notify (out_trace (dailyCheckin e b d)) =
          [Notify (student_id b) (quiz_score b) (parseFocusMinutes b)]"
    using valid ok s
    by (simp add: out_db_dailyCheckin out_trace_dailyCheckin state_of_update_student_status)
  have boundary: "quiz_score b = JNum (Fin 7) \<or> parseFocusMinutes b = Fin 60 \<Longrightarrow> \<not> isSuccess b"
  proof (erule disjE)
    assume "quiz_score b = JNum (Fin 7)"
    then show "\<not> isSuccess b" by (simp add: isSuccess_def js_gt_def)
  next
    assume "parseFocusMinutes b = Fin 60"
    then show "\<not> isSuccess b" by (simp add: isSuccess_def)
  qed
  have c1: "js_gt (quiz_score b) (Fin 7) \<and> num_gt (parseFocusMinutes b) (Fin 60) \<longrightarrow>
            state_of (out_db (dailyCheckin e b d)) (student_id b) = Some ''normal''
            \<and> filter is_Notify (out_trace (dailyCheckin e b d)) = []"
    by (rule impI) (rule pass [unfolded isSuccess_def])
  have c2: "\<not> (js_gt (quiz_score b) (Fin 7) \<and> num_gt (parseFocusMinutes b) (Fin 60)) \<longrightarrow>
            state_of (out_db (dailyCheckin e b d)) (student_id b) = Some ''needs_intervention''
            \<and> filter is_Notify (out_trace (dailyCheckin e b d)) =
                [Notify (student_id b) (quiz_score b) (parseFocusMinutes b)]"
    by (rule impI) (rule fail [unfolded isSuccess_def])
  have c3: "quiz_score b = JNum (Fin 7) \<or> parseFocusMinutes b = Fin 60 \<longrightarrow>
            state_of (out_db (dailyCheckin e b d)) (student_id b) = Some ''needs_intervention''
            \<and> filter is_Notify (out_trace (dailyCheckin e b d)) =
                [Notify (student_id b) (quiz_score b) (parseFocusMinutes b)]"
    by (rule impI) (rule fail [OF boundary])
  show ?thesis
    by (rule conjI [OF c1 conjI [OF c2 c3]])
qed


text \<open>The spec's three check-ins: score 8 with 61 minutes, 7 with 61, and 9 with 60.\<close>

theorem dailyCheckin_guard_witness:
  "state_of (out_db (dailyCheckin env_ok (checkin_body 8 61) db_one_student)) (JStr ''s1'')
     = Some ''normal''
   \<and> filter is_Notify (out_trace (dailyCheckin env_ok (checkin_body 8 61) db_one_student)) = []
   \<and> state_of (out_db (dailyCheckin env_ok (checkin_body 7 61) db_one_student)) (JStr ''s1'')
     = Some ''needs_intervention''
   \<and> state_of (out_db (dailyCheckin env_ok (checkin_body 9 60) db_one_student)) (JStr ''s1'')
     = Some ''needs_intervention''
   \<and> filter is_Notify (out_trace (dailyCheckin env_ok (checkin_body 9 60) db_one_student))
     = [Notify (JStr ''s1'') (JNum (Fin 9)) (Fin 60)]"
proof -
  have k: "state_of db_one_student (JStr ''s1'') \<noteq> None"
    by (simp add: state_of_def select_student_def db_one_student_def)
  have p: "parseFocusMinutes (checkin_body q m) = Fin m" for q m
    by (simp add: parseFocusMinutes_def is_finite_number_def checkin_body_def empty_body_def)
  have sid: "student_id (checkin_body q m) = JStr ''s1''"
    and qs: "quiz_score (checkin_body q m) = JNum (Fin q)" for q m
    by (simp_all add: checkin_body_def empty_body_def)
  have e: "q1_ok env_ok" "q2_ok env_ok"
    by (simp_all add: env_ok_def)
  have a: "state_of (out_db (dailyCheckin env_ok (checkin_body 8 61) db_one_student)) (JStr ''s1'')
       = Some ''normal''
     \<and> filter is_Notify (out_trace (dailyCheckin env_ok (checkin_body 8 61) db_one_student)) = []"
    using dailyCheckin_guard [of "checkin_body 8 61" env_ok db_one_student] k e
    by (simp add: sid qs p js_gt_def)
  have b: "state_of (out_db (dailyCheckin env_ok (checkin_body 7 61) db_one_student)) (JStr ''s1'')
       = Some ''needs_intervention''"
    using dailyCheckin_guard [of "checkin_body 7 61" env_ok db_one_student] k e
    by (simp add: sid qs p js_gt_def)
  have c: "state_of (out_db (dailyCheckin env_ok (checkin_body 9 60) db_one_student)) (JStr ''s1'')
       = Some ''needs_intervention''
     \<and> filter is_Notify (out_trace (dailyCheckin env_ok (checkin_body 9 60) db_one_student))
       = [Notify (JStr ''s1'') (JNum (Fin 9)) (Fin 60)]"
    using dailyCheckin_guard [of "checkin_body 9 60" env_ok db_one_student] k e
    by (simp add: sid qs p js_gt_def)
  from a b c show ?thesis by simp
qed

text \<open>
  What the two endpoints answer when the notification transport raises: the check-in
  carries a warning, the violation report puts the remark into its status and carries none.
\<close>

lemma out_response_dailyCheckin_raised:
  "truthy (student_id b) \<Longrightarrow> quiz_score b \<noteq> JUndefined \<Longrightarrow> q1_ok e \<Longrightarrow> q2_ok e \<Longrightarrow>
   \<not> isSuccess b \<Longrightarrow> notify_out e = NotifyRaised \<Longrightarrow>
   out_response (dailyCheckin e b d) =
     Response 200 (StatusBody ''Pending Mentor Review'' (Some ''Notification may have failed''))"
  by (simp add: dailyCheckin_def Let_def responseStatus_def)

lemma out_response_reportCheat_raised:
  "truthy (student_id b) \<Longrightarrow> q1_ok e \<Longrightarrow> q2_ok e \<Longrightarrow> notify_out e = NotifyRaised \<Longrightarrow>
   out_response (reportCheat e b d) =
     Response 200 (StatusBody ''Logged cheat (notification may have failed)'' None)"
  by (simp add: reportCheat_def Let_def)

text \<open>
  Claim C3 says that a check-in or a violation report whose notification raises still
  answers with the right status and a non-empty warning, the log row and the state update
  being persisted. For the violation report of student \<^verbatim>\<open>s1\<close> below, the row is logged and
  the state is updated, but the response has no warning field.
\<close>

theorem reportCheat_notify_raised_no_warning:
  "out_response (reportCheat env_notify_raised cheat_body db_one_student) =
     Response 200 (StatusBody ''Logged cheat (notification may have failed)'' None)
   \<and> state_of (out_db (reportCheat env_notify_raised cheat_body db_one_student)) (JStr ''s1'') =
     Some ''needs_intervention''
   \<and> daily_logs (out_db (reportCheat env_notify_raised cheat_body db_one_student)) =
     [\<lparr>lg_student_id = JStr ''s1'', lg_quiz_score = JNum (Fin 0), lg_focus_minutes = Fin 12,
       lg_status = JStr ''cheated''\<rparr>]"
proof -
  have v: "truthy (student_id cheat_body)" "student_id cheat_body = JStr ''s1''"
    by (simp_all add: cheat_body_def empty_body_def)
  have e: "q1_ok env_notify_raised" "q2_ok env_notify_raised"
    "notify_out env_notify_raised = NotifyRaised"
    by (simp_all add: env_notify_raised_def env_ok_def)
  have p: "parseFocusMinutes cheat_body = Fin (12 + 5 / 60)"
    by (simp add: parseFocusMinutes_def is_finite_number_def cheat_body_def empty_body_def
        number_eval)
  have row: "cheat_log_row cheat_body =
      \<lparr>lg_student_id = JStr ''s1'', lg_quiz_score = JNum (Fin 0), lg_focus_minutes = Fin 12,
       lg_status = JStr ''cheated''\<rparr>"
    by (simp add: cheat_log_row_def p v statusReason_def) (simp add: cheat_body_def empty_body_def)
  have s: "state_of db_one_student (JStr ''s1'') = Some ''normal''"
    by (simp add: state_of_def select_student_def db_one_student_def)
  have l: "daily_logs db_one_student = []"
    by (simp add: db_one_student_def)
  show ?thesis
    using v e
    by (simp add: out_response_reportCheat_raised out_db_reportCheat
        state_of_update_student_status s l row)
qed

text \<open>
  Claim C4. A check-in that carries its required fields issues the insertion of its
  DailyLog row first and only once, before any update of the student or notification; when
  the insertion succeeds the store has exactly that one row more, whatever the later steps
  do; when it fails nothing else is attempted and the store is unchanged.
\<close>

theorem dailyCheckin_log_first:
  assumes valid: "truthy (student_id b)" "quiz_score b \<noteq> JUndefined"
  shows "(q1_ok e \<longrightarrow>
            daily_logs (out_db (dailyCheckin e b d)) = daily_logs d @ [checkin_log_row b])
         \<and> (\<exists>rest. out_trace (dailyCheckin e b d) = InsertLog (checkin_log_row b) # rest
               \<and> filter is_InsertLog rest = [])
         \<and> (\<not> q1_ok e \<longrightarrow>
               out_db (dailyCheckin e b d) = d
               \<and> out_trace (dailyCheckin e b d) = [InsertLog (checkin_log_row b)])"
  using valid by (simp add: out_db_dailyCheckin out_trace_dailyCheckin)

text \<open>A failing check-in whose update of the student raises: the row is there.\<close>

theorem dailyCheckin_log_first_witness:
  "daily_logs (out_db (dailyCheckin env_update_fails (checkin_body 7 61) db_one_student)) =
     [\<lparr>lg_student_id = JStr ''s1'', lg_quiz_score = JNum (Fin 7), lg_focus_minutes = Fin 61,
       lg_status = JStr ''needs_intervention''\<rparr>]
   \<and> hd (out_trace (dailyCheckin env_update_fails (checkin_body 7 61) db_one_student)) =
     InsertLog \<lparr>lg_student_id = JStr ''s1'', lg_quiz_score = JNum (Fin 7),
                lg_focus_minutes = Fin 61, lg_status = JStr ''needs_intervention''\<rparr>
   \<and> out_response (dailyCheckin env_update_fails (checkin_body 7 61) db_one_student) =
     Response 500 (ErrorBody ''Failed to process daily check-in'')"
proof -
  have v: "truthy (student_id (checkin_body 7 61))" "quiz_score (checkin_body 7 61) \<noteq> JUndefined"
    by (simp_all add: checkin_body_def empty_body_def)
  have e: "q1_ok env_update_fails" "\<not> q2_ok env_update_fails"
    by (simp_all add: env_update_fails_def env_ok_def)
  have p: "parseFocusMinutes (checkin_body 7 61) = Fin 61"
    by (simp add: parseFocusMinutes_def is_finite_number_def checkin_body_def empty_body_def)
  have "\<not> isSuccess (checkin_body 7 61)"
    by (simp add: isSuccess_def js_gt_def checkin_body_def empty_body_def)
  then have row: "checkin_log_row (checkin_body 7 61) =
      \<lparr>lg_student_id = JStr ''s1'', lg_quiz_score = JNum (Fin 7), lg_focus_minutes = Fin 61,
       lg_status = JStr ''needs_intervention''\<rparr>"
    by (simp add: checkin_log_row_def dbStatus_def p) (simp add: checkin_body_def empty_body_def)
  have l: "daily_logs db_one_student = []"
    by (simp add: db_one_student_def)
  have r: "out_response (dailyCheckin env_update_fails (checkin_body 7 61) db_one_student) =
     Response 500 (ErrorBody ''Failed to process daily check-in'')"
    using v e \<open>\<not> isSuccess (checkin_body 7 61)\<close> by (simp add: dailyCheckin_def Let_def)
  from dailyCheckin_log_first [OF v, of env_update_fails db_one_student] e r
  show ?thesis
    by (auto simp add: row l)
qed

text \<open>
  Claim C10. For every accepted check-in and every accepted violation report whose
  insertion succeeds, the focus minutes written into the DailyLog row are the parsed value
  rounded to the nearest integer, while the success guard of the check-in reads the
  unrounded value. So there are check-ins whose logged value exceeds the threshold although
  they are classified as failing: with a parsed value of 60.5 and a quiz score of 7, the
  row logs 61, which is above 60, with the outcome \<^verbatim>\<open>needs_intervention\<close>, and the response
  is \<^verbatim>\<open>Pending Mentor Review\<close>.
\<close>

theorem logged_focus_rounded:
  "(truthy (student_id b) \<and> quiz_score b \<noteq> JUndefined \<and> q1_ok e \<longrightarrow>
      lg_focus_minutes (last (daily_logs (out_db (dailyCheckin e b d)))) =
        math_round (parseFocusMinutes b)
      \<and> (lg_status (last (daily_logs (out_db (dailyCheckin e b d)))) = JStr ''on_track'')
          = (js_gt (quiz_score b) (Fin 7) \<and> num_gt (parseFocusMinutes b) (Fin 60)))
   \<and> (truthy (student_id b) \<and> q1_ok e \<longrightarrow>
      lg_focus_minutes (last (daily_logs (out_db (reportCheat e b d)))) =
        math_round (parseFocusMinutes b))
   \<and> parseFocusMinutes body_sixty_and_a_half = Fin 60.5
   \<and> lg_focus_minutes (last (daily_logs
        (out_db (dailyCheckin env_ok body_sixty_and_a_half db_one_student)))) = Fin 61
   \<and> num_gt (Fin 61) (Fin 60)
   \<and> lg_status (last (daily_logs
        (out_db (dailyCheckin env_ok body_sixty_and_a_half db_one_student)))) =
        JStr ''needs_intervention''
   \<and> out_response (dailyCheckin env_ok body_sixty_and_a_half db_one_student) =
        Response 200 (StatusBody ''Pending Mentor Review'' None)
   \<and> state_of (out_db (dailyCheckin env_ok body_sixty_and_a_half db_one_student)) (JStr ''s1'') =
        Some ''needs_intervention''"
proof -
  have a: "truthy (student_id b) \<and> quiz_score b \<noteq> JUndefined \<and> q1_ok e \<longrightarrow>
      lg_focus_minutes (last (daily_logs (out_db (dailyCheckin e b d)))) =
        math_round (parseFocusMinutes b)
      \<and> (lg_status (last (daily_logs (out_db (dailyCheckin e b d)))) = JStr ''on_track'')
          = (js_gt (quiz_score b) (Fin 7) \<and> num_gt (parseFocusMinutes b) (Fin 60))"
    by (simp add: out_db_dailyCheckin checkin_log_row_def dbStatus_def isSuccess_def)
  have c: "truthy (student_id b) \<and> q1_ok e \<longrightarrow>
      lg_focus_minutes (last (daily_logs (out_db (reportCheat e b d)))) =
        math_round (parseFocusMinutes b)"
    by (simp add: out_db_reportCheat cheat_log_row_def)
  have p: "parseFocusMinutes body_sixty_and_a_half = Fin 60.5"
    by (simp add: parseFocusMinutes_def is_finite_number_def body_sixty_and_a_half_def
        checkin_body_def empty_body_def)
  have v: "truthy (student_id body_sixty_and_a_half)"
    "quiz_score body_sixty_and_a_half \<noteq> JUndefined"
    "student_id body_sixty_and_a_half = JStr ''s1''"
    by (simp_all add: body_sixty_and_a_half_def checkin_body_def empty_body_def)
  have e: "q1_ok env_ok" "q2_ok env_ok" "notify_out env_ok = NotifyReturned None"
    by (simp_all add: env_ok_def)
  have no: "\<not> isSuccess body_sixty_and_a_half"
    by (simp add: isSuccess_def js_gt_def body_sixty_and_a_half_def checkin_body_def
        empty_body_def)
  have s: "state_of db_one_student (JStr ''s1'') = Some ''normal''"
    by (simp add: state_of_def select_student_def db_one_student_def)
  have l: "lg_focus_minutes (last (daily_logs
        (out_db (dailyCheckin env_ok body_sixty_and_a_half db_one_student)))) = Fin 61"
    using v e by (simp add: out_db_dailyCheckin checkin_log_row_def p)
  have g: "num_gt (Fin 61) (Fin 60)"
    by simp
  have t: "lg_status (last (daily_logs
        (out_db (dailyCheckin env_ok body_sixty_and_a_half db_one_student)))) =
        JStr ''needs_intervention''"
    using v e no by (simp add: out_db_dailyCheckin checkin_log_row_def dbStatus_def)
  have r: "out_response (dailyCheckin env_ok body_sixty_and_a_half db_one_student) =
        Response 200 (StatusBody ''Pending Mentor Review'' None)"
    using v e no by (simp add: dailyCheckin_def Let_def responseStatus_def)
  have st: "state_of (out_db (dailyCheckin env_ok body_sixty_and_a_half db_one_student))
        (JStr ''s1'') = Some ''needs_intervention''"
    using v e no by (simp add: out_db_dailyCheckin state_of_update_student_status s)
  show ?thesis
    by (rule conjI [OF a conjI [OF c conjI [OF p conjI [OF l conjI [OF g
          conjI [OF t conjI [OF r st]]]]]]])
qed

text \<open>
  The general part at the check-in of 60.5 minutes with a quiz score of 7, and at a
  violation report after 12 minutes and 5 seconds.
\<close>

theorem logged_focus_rounded_witness:
  "lg_focus_minutes (last (daily_logs
      (out_db (dailyCheckin env_ok body_sixty_and_a_half db_one_student)))) =
      math_round (Fin 60.5)
   \<and> lg_status (last (daily_logs
      (out_db (dailyCheckin env_ok body_sixty_and_a_half db_one_student)))) \<noteq> JStr ''on_track''
   \<and> lg_focus_minutes (last (daily_logs
      (out_db (reportCheat env_ok cheat_body db_one_student)))) = Fin 12"
proof -
  have v: "truthy (student_id body_sixty_and_a_half)"
    "quiz_score body_sixty_and_a_half = JNum (Fin 7)"
    by (simp_all add: body_sixty_and_a_half_def checkin_body_def empty_body_def)
  have e: "q1_ok env_ok" by (simp add: env_ok_def)
  have p: "parseFocusMinutes body_sixty_and_a_half = Fin 60.5"
    by (simp add: parseFocusMinutes_def is_finite_number_def body_sixty_and_a_half_def
        checkin_body_def empty_body_def)
  have a: "lg_focus_minutes (last (daily_logs
      (out_db (dailyCheckin env_ok body_sixty_and_a_half db_one_student)))) =
      math_round (Fin 60.5)
   \<and> lg_status (last (daily_logs
      (out_db (dailyCheckin env_ok body_sixty_and_a_half db_one_student)))) \<noteq> JStr ''on_track''"
    using logged_focus_rounded [of body_sixty_and_a_half env_ok db_one_student] v e
    by (simp add: p js_gt_def)
  have vc: "truthy (student_id cheat_body)"
    by (simp add: cheat_body_def empty_body_def)
  have pc: "parseFocusMinutes cheat_body = Fin (12 + 5 / 60)"
    by (simp add: parseFocusMinutes_def is_finite_number_def cheat_body_def empty_body_def
        number_eval)
  have c: "lg_focus_minutes (last (daily_logs
      (out_db (reportCheat env_ok cheat_body db_one_student)))) = Fin 12"
    using logged_focus_rounded [of cheat_body env_ok db_one_student] vc e
    by (simp add: pc)
  from a c show ?thesis by simp
qed

lemma out_response_completeIntervention:
  "out_response (completeIntervention e b d) =
     (if \<not> truthy (student_id b) \<or> \<not> truthy (intervention_id b)
      then Response 400 (ErrorBody ''Missing required fields'')
      else if \<not> q1_ok e then Response 500 (ErrorBody ''Failed to complete intervention'')
      else if snd (update_intervention_status ''completed'' (clock e) (intervention_id b)
                     (student_id b) d) = 0
      then Response 404 (ErrorBody ''Intervention not found'')
      else if \<not> q2_ok e then Response 500 (ErrorBody ''Failed to complete intervention'')
      else Response 200 (SuccessBody True))"
  by (simp add: completeIntervention_def Let_def split_beta)

lemma out_response_assignIntervention:
  "out_response (assignIntervention e b d) =
     (if \<not> truthy (student_id b) \<or> \<not> truthy (task_description b)
      then Response 400 (ErrorBody ''Missing required fields'')
      else if \<not> q1_ok e \<or> \<not> q2_ok e
      then Response 500 (ErrorBody ''Failed to assign intervention'')
      else Response 200
             (AssignedBody True
                (iv_id (snd (insert_intervention (clock e) (student_id b) (task_description b) d)))))"
  by (simp add: assignIntervention_def Let_def split_beta)

text \<open>
  Claim C7 says that completing an intervention that matches no existing pending
  intervention answers not-found and changes nothing. The only intervention of the store
  below is completed already; completing it again succeeds, overwrites its completion time
  and sets the student to \<^verbatim>\<open>normal\<close>.
\<close>

theorem completeIntervention_completed_counterexample:
  "map iv_status (interventions db_completed) = [''completed'']
   \<and> out_response (completeIntervention env_ok (complete_body 1) db_completed) =
       Response 200 (SuccessBody True)
   \<and> state_of db_completed (JStr ''s1'') = Some ''needs_intervention''
   \<and> state_of (out_db (completeIntervention env_ok (complete_body 1) db_completed)) (JStr ''s1'') =
       Some ''normal''
   \<and> map iv_completed_at (interventions db_completed) = [Some 2]
   \<and> map iv_completed_at
        (interventions (out_db (completeIntervention env_ok (complete_body 1) db_completed))) =
       [Some 100]"
  by (simp add: out_response_completeIntervention out_db_completeIntervention
      update_intervention_status_def matches_intervention_def update_student_status_def
      state_of_def select_student_def db_completed_def complete_body_def empty_body_def env_ok_def)

lemma map_no_match: "filter P xs = [] \<Longrightarrow> map (\<lambda>r. if P r then f r else r) xs = xs"
  by (induction xs) (auto split: if_splits)

lemma update_intervention_status_no_match:
  "filter (matches_intervention iid i) (interventions d) = [] \<Longrightarrow>
   update_intervention_status s t iid i d = (d, 0)"
  by (simp add: update_intervention_status_def map_no_match)

text \<open>
  Claim C7, amended. Completing an intervention whose id and student match no row of the
  interventions table, of whatever status, answers 404 and leaves the store, and so the
  interventions and the student's state, unchanged.
\<close>

theorem completeIntervention_not_found:
  assumes "truthy (student_id b)" "truthy (intervention_id b)" "q1_ok e"
    and "filter (matches_intervention (intervention_id b) (student_id b)) (interventions d) = []"
  shows "out_response (completeIntervention e b d) =
           Response 404 (ErrorBody ''Intervention not found'')
         \<and> out_db (completeIntervention e b d) = d"
  using assms
  by (simp add: out_response_completeIntervention out_db_completeIntervention
      update_intervention_status_no_match)

theorem completeIntervention_not_found_witness:
  "out_response (completeIntervention env_ok (complete_body 2) db_completed) =
     Response 404 (ErrorBody ''Intervention not found'')
   \<and> out_db (completeIntervention env_ok (complete_body 2) db_completed) = db_completed"
proof (rule completeIntervention_not_found)
  show "truthy (student_id (complete_body 2))" "truthy (intervention_id (complete_body 2))"
    by (simp_all add: complete_body_def empty_body_def)
  show "q1_ok env_ok" by (simp add: env_ok_def)
  show "filter (matches_intervention (intervention_id (complete_body 2))
      (student_id (complete_body 2))) (interventions db_completed) = []"
    by (simp add: matches_intervention_def complete_body_def empty_body_def db_completed_def)
qed

lemma snd_insert_intervention:
  "snd (insert_intervention t i task d) = new_intervention t i task d"
  by (simp add: insert_intervention_def Let_def)

lemma interventions_insert_intervention:
  "interventions (fst (insert_intervention t i task d)) =
     interventions d @ [new_intervention t i task d]"
  by (simp add: insert_intervention_def Let_def)

lemma state_of_insert_intervention [simp]:
  "state_of (fst (insert_intervention t i task d)) j = state_of d j"
  by (simp add: state_of_def select_student_def)

lemma state_of_update_intervention_status [simp]:
  "state_of (fst (update_intervention_status s t iid i d)) j = state_of d j"
  by (simp add: state_of_def select_student_def)

lemma interventions_update_intervention_status:
  "interventions (fst (update_intervention_status s t iid i d)) =
     map (\<lambda>r. if matches_intervention iid i r
              then r\<lparr>iv_status := s, iv_completed_at := Some t\<rparr> else r) (interventions d)"
  by (simp add: update_intervention_status_def)

lemma snd_update_intervention_status:
  "snd (update_intervention_status s t iid i d) =
     length (filter (matches_intervention iid i) (interventions d))"
  by (simp add: update_intervention_status_def)

text \<open>
  Claim C8. Assigning an intervention to a known student creates a pending intervention
  and sets the student to \<^verbatim>\<open>remedial\<close>, whatever the state was; completing the intervention
  of the returned id for that student then sets the student to \<^verbatim>\<open>normal\<close> and marks the
  intervention completed, with a completion time. All four statements succeed.
\<close>

theorem assign_then_complete:
  assumes valid: "truthy (student_id b)" "truthy (task_description b)"
    and ok1: "q1_ok e1" "q2_ok e1"
    and ok2: "q1_ok e2" "q2_ok e2"
    and known: "state_of d (student_id b) \<noteq> None"
    and same: "student_id b2 = student_id b"
    and iid: "intervention_id b2 = JNum (Fin (real (Suc (last_intervention_id d))))"
  shows "(let d1 = out_db (assignIntervention e1 b d);
              d2 = out_db (completeIntervention e2 b2 d1);
              row = new_intervention (clock e1) (student_id b) (task_description b) d
          in out_response (assignIntervention e1 b d) =
               Response 200 (AssignedBody True (intervention_id b2))
             \<and> state_of d1 (student_id b) = Some ''remedial''
             \<and> interventions d1 = interventions d @ [row]
             \<and> iv_status row = ''pending''
             \<and> out_response (completeIntervention e2 b2 d1) = Response 200 (SuccessBody True)
             \<and> state_of d2 (student_id b) = Some ''normal''
             \<and> last (interventions d2) =
                 row\<lparr>iv_status := ''completed'', iv_completed_at := Some (clock e2)\<rparr>
             \<and> iv_completed_at (last (interventions d2)) \<noteq> None)"
proof -
  let ?sid = "student_id b"
  let ?iid = "JNum (Fin (real (Suc (last_intervention_id d))))"
  let ?row = "new_intervention (clock e1) ?sid (task_description b) d"
  let ?d1 = "out_db (assignIntervention e1 b d)"
  let ?d2 = "out_db (completeIntervention e2 b2 ?d1)"
  from known obtain s where s: "state_of d ?sid = Some s" by auto
  have t2: "truthy (student_id b2)" "truthy (intervention_id b2)"
    using valid same iid by simp_all
  have r1: "out_response (assignIntervention e1 b d) =
      Response 200 (AssignedBody True (intervention_id b2))"
    using valid ok1 iid
    by (simp add: out_response_assignIntervention snd_insert_intervention new_intervention_def)
  have d1: "?d1 = update_student_status ''remedial'' (clock e1) ?sid
      (fst (insert_intervention (clock e1) ?sid (task_description b) d))"
    using valid ok1 by (simp add: out_db_assignIntervention)
  have s1: "state_of ?d1 ?sid = Some ''remedial''"
    by (simp add: d1 state_of_update_student_status s)
  have i1: "interventions ?d1 = interventions d @ [?row]"
    by (simp add: d1 interventions_insert_intervention)
  have m: "matches_intervention (intervention_id b2) (student_id b2) ?row"
    by (simp add: iid same matches_intervention_def new_intervention_def)
  then have n: "snd (update_intervention_status ''completed'' (clock e2) (intervention_id b2)
      (student_id b2) ?d1) \<noteq> 0"
    by (simp add: snd_update_intervention_status i1)
  have r2: "out_response (completeIntervention e2 b2 ?d1) = Response 200 (SuccessBody True)"
    using t2 ok2 n by (simp add: out_response_completeIntervention)
  have d2: "?d2 = update_student_status ''normal'' (clock e2) (student_id b2)
      (fst (update_intervention_status ''completed'' (clock e2) (intervention_id b2)
              (student_id b2) ?d1))"
    using t2 ok2 n by (simp add: out_db_completeIntervention)
  have s2: "state_of ?d2 ?sid = Some ''normal''"
    by (simp add: d2 same state_of_update_student_status s1)
  have i2: "last (interventions ?d2) =
      ?row\<lparr>iv_status := ''completed'', iv_completed_at := Some (clock e2)\<rparr>"
    using m by (simp add: d2 interventions_update_intervention_status i1)
  have p: "iv_status ?row = ''pending''"
    by (simp add: new_intervention_def)
  have c: "iv_completed_at (last (interventions ?d2)) \<noteq> None"
    by (simp add: i2)
  from r1 s1 i1 p r2 s2 i2 c show ?thesis
    by (simp only: Let_def simp_thms)
qed

theorem assign_then_complete_witness:
  "out_response (assignIntervention env_ok assign_body db_one_student) =
     Response 200 (AssignedBody True (JNum (Fin 1)))
   \<and> state_of (out_db (assignIntervention env_ok assign_body db_one_student)) (JStr ''s1'') =
     Some ''remedial''
   \<and> state_of (out_db (completeIntervention env_ok (complete_body 1)
        (out_db (assignIntervention env_ok assign_body db_one_student)))) (JStr ''s1'') =
     Some ''normal''
   \<and> map iv_status (interventions (out_db (completeIntervention env_ok (complete_body 1)
        (out_db (assignIntervention env_ok assign_body db_one_student))))) = [''completed'']
   \<and> map iv_completed_at (interventions (out_db (completeIntervention env_ok (complete_body 1)
        (out_db (assignIntervention env_ok assign_body db_one_student))))) = [Some 100]"
proof -
  have v: "truthy (student_id assign_body)" "truthy (task_description assign_body)"
    by (simp_all add: assign_body_def empty_body_def)
  have e: "q1_ok env_ok" "q2_ok env_ok" "clock env_ok = 100"
    by (simp_all add: env_ok_def)
  have k: "state_of db_one_student (student_id assign_body) \<noteq> None"
    by (simp add: state_of_def select_student_def db_one_student_def assign_body_def
        empty_body_def)
  have sid: "student_id (complete_body 1) = student_id assign_body"
    "student_id assign_body = JStr ''s1''"
    by (simp_all add: complete_body_def assign_body_def empty_body_def)
  have iid: "intervention_id (complete_body 1) =
      JNum (Fin (real (Suc (last_intervention_id db_one_student))))"
    "intervention_id (complete_body 1) = JNum (Fin 1)"
    by (simp_all add: complete_body_def empty_body_def db_one_student_def)
  have l: "interventions db_one_student = []"
    by (simp add: db_one_student_def)
  note t = assign_then_complete [OF v e(1,2) e(1,2) k sid(1) iid(1), unfolded Let_def]
  have len: "length (interventions (out_db (completeIntervention env_ok (complete_body 1)
        (out_db (assignIntervention env_ok assign_body db_one_student))))) = 1"
    using v e sid iid(2)
    by (simp add: out_db_completeIntervention out_db_assignIntervention
        interventions_update_intervention_status interventions_insert_intervention l)
  then obtain x where x: "interventions (out_db (completeIntervention env_ok (complete_body 1)
        (out_db (assignIntervention env_ok assign_body db_one_student)))) = [x]"
    by (auto simp add: length_Suc_conv)
  from t show ?thesis
    by (simp add: x sid(2) iid(2) e(3) new_intervention_def)
qed

section \<open>Properties of the focus session monitor\<close>

lemma ref_addActivityLog [simp]: "isTimerRunningRef (addActivityLog m c) = isTimerRunningRef c"
  by (simp add: addActivityLog_def)

lemma ref_client_reportCheat [simp]:
  "isTimerRunningRef (client_reportCheat why c) = isTimerRunningRef c"
  by (simp add: client_reportCheat_def Let_def)

lemma posted_addActivityLog [simp]: "posted (addActivityLog m c) = posted c"
  by (simp add: addActivityLog_def)

lemma handleFocusLoss_stops: "\<not> isTimerRunningRef (handleFocusLoss why c)"
  by (simp add: handleFocusLoss_def)

lemma step_keeps_stopped:
  "\<not> is_Start ev \<Longrightarrow> \<not> isTimerRunningRef c \<Longrightarrow> \<not> isTimerRunningRef (client_step ev c)"
  by (cases ev)
    (simp_all add: stopTimer_def resetTimer_def tick_def statusFetched_def handleFocusLoss_def
      split: option.split)

lemma run_keeps_stopped:
  "list_all (\<lambda>ev. \<not> is_Start ev) evs \<Longrightarrow> \<not> isTimerRunningRef c \<Longrightarrow>
   \<not> isTimerRunningRef (client_run evs c)"
  by (induction evs arbitrary: c) (simp_all add: step_keeps_stopped)

lemma posted_step_stopped:
  "\<not> is_Start ev \<Longrightarrow> \<not> isTimerRunningRef c \<Longrightarrow> posted (client_step ev c) = posted c"
  by (cases ev)
    (simp_all add: stopTimer_def resetTimer_def tick_def statusFetched_def handleFocusLoss_def
      split: option.split)

lemma posted_run_stopped:
  "list_all (\<lambda>ev. \<not> is_Start ev) evs \<Longrightarrow> \<not> isTimerRunningRef c \<Longrightarrow>
   posted (client_run evs c) = posted c"
  by (induction evs arbitrary: c) (simp_all add: step_keeps_stopped posted_step_stopped)

text \<open>
  Claim C9. A focus-loss signal that arrives while the timer is not running changes
  nothing. One that arrives while it runs stops it and posts one report; a second signal
  right after it, or after any events other than a start, changes nothing and posts
  nothing.
\<close>

theorem handleFocusLoss_guard:
  "(\<not> isTimerRunningRef c \<longrightarrow> handleFocusLoss why c = c)
   \<and> (isTimerRunningRef c \<longrightarrow>
        \<not> isTimerRunningRef (handleFocusLoss why c)
        \<and> posted (handleFocusLoss why c) =
            posted c @ [empty_body\<lparr>student_id := JStr STUDENT_ID,
                                   focus_duration := JStr (formatTime (focusSecondsRef c)),
                                   reason := JStr why\<rparr>])
   \<and> handleFocusLoss why2 (handleFocusLoss why c) = handleFocusLoss why c
   \<and> (list_all (\<lambda>ev. \<not> is_Start ev) evs \<longrightarrow>
        handleFocusLoss why2 (client_run evs (handleFocusLoss why c)) =
          client_run evs (handleFocusLoss why c)
        \<and> posted (client_run evs (handleFocusLoss why c)) = posted (handleFocusLoss why c))"
proof -
  have a: "\<not> isTimerRunningRef c \<longrightarrow> handleFocusLoss why c = c"
    by (simp add: handleFocusLoss_def)
  have b: "isTimerRunningRef c \<longrightarrow>
        \<not> isTimerRunningRef (handleFocusLoss why c)
        \<and> posted (handleFocusLoss why c) =
            posted c @ [empty_body\<lparr>student_id := JStr STUDENT_ID,
                                   focus_duration := JStr (formatTime (focusSecondsRef c)),
                                   reason := JStr why\<rparr>]"
    by (simp add: handleFocusLoss_def client_reportCheat_def Let_def addActivityLog_def)
  have noop: "\<not> isTimerRunningRef x \<Longrightarrow> handleFocusLoss why2 x = x" for x
    by (simp add: handleFocusLoss_def)
  have c: "handleFocusLoss why2 (handleFocusLoss why c) = handleFocusLoss why c"
    by (rule noop) (rule handleFocusLoss_stops)
  have d: "list_all (\<lambda>ev. \<not> is_Start ev) evs \<longrightarrow>
        handleFocusLoss why2 (client_run evs (handleFocusLoss why c)) =
          client_run evs (handleFocusLoss why c)
        \<and> posted (client_run evs (handleFocusLoss why c)) = posted (handleFocusLoss why c)"
  proof (intro impI conjI)
    assume e: "list_all (\<lambda>ev. \<not> is_Start ev) evs"
    show "handleFocusLoss why2 (client_run evs (handleFocusLoss why c)) =
          client_run evs (handleFocusLoss why c)"
      by (rule noop) (rule run_keeps_stopped [OF e handleFocusLoss_stops])
    show "posted (client_run evs (handleFocusLoss why c)) = posted (handleFocusLoss why c)"
      by (rule posted_run_stopped [OF e handleFocusLoss_stops])
  qed
  show ?thesis
    by (rule conjI [OF a conjI [OF b conjI [OF c d]]])
qed

theorem handleFocusLoss_guard_witness:
  "handleFocusLoss ''window blurred'' client_idle = client_idle
   \<and> posted (handleFocusLoss ''window hidden'' (client_run [Start, Tick, Tick] client_idle)) =
       [empty_body\<lparr>student_id := JStr ''student 123'', focus_duration := JStr ''00:02'',
                   reason := JStr ''window hidden''\<rparr>]
   \<and> posted (handleFocusLoss ''window blurred''
        (client_run [Tick, StatusFetched (Some ''needs_intervention'') None, Stop]
           (handleFocusLoss ''window hidden'' (client_run [Start, Tick, Tick] client_idle)))) =
       [empty_body\<lparr>student_id := JStr ''student 123'', focus_duration := JStr ''00:02'',
                   reason := JStr ''window hidden''\<rparr>]"
proof -
  let ?c = "client_run [Start, Tick, Tick] client_idle"
  let ?evs = "[Tick, StatusFetched (Some ''needs_intervention'') None, Stop]"
  have i: "\<not> isTimerRunningRef client_idle" by (simp add: client_idle_def)
  have r: "isTimerRunningRef ?c" "focusSecondsRef ?c = 2" "posted ?c = []"
    by (simp_all add: client_idle_def startTimer_def tick_def addActivityLog_def)
  have f: "formatTime 2 = ''00:02''"
    by (simp add: formatTime_def padStart_def digit_char_def)
  have n: "list_all (\<lambda>ev. \<not> is_Start ev) ?evs" by simp
  have a: "handleFocusLoss ''window blurred'' client_idle = client_idle"
    using handleFocusLoss_guard [of client_idle "''window blurred''"] i by simp
  have b: "posted (handleFocusLoss ''window hidden'' ?c) =
       [empty_body\<lparr>student_id := JStr ''student 123'', focus_duration := JStr ''00:02'',
                   reason := JStr ''window hidden''\<rparr>]"
    using handleFocusLoss_guard [of ?c "''window hidden''"] r
    by (simp add: f STUDENT_ID_def)
  have c: "posted (handleFocusLoss ''window blurred''
        (client_run ?evs (handleFocusLoss ''window hidden'' ?c))) =
      posted (handleFocusLoss ''window hidden'' ?c)"
    using handleFocusLoss_guard [of ?c "''window hidden''" "''window blurred''" ?evs] n
    by simp
  from a b c show ?thesis by simp
qed

end
